theory Spec2Isabelle
  imports Main
begin

section \<open>The User facade of src/API/User/User.ts\<close>

subsection \<open>Data\<close>

text \<open>
  The interface \<open>UserData\<close> (User.ts, lines 14-23): eight string fields. The field
  \<open>_id\<close> is written \<open>id'\<close> (an identifier cannot start with an underscore, and
  \<open>id\<close> is the identity function of HOL).
\<close>

record UserData =
  id' :: string
  bio :: string
  created_at :: string
  name :: string
  display_name :: string
  logo :: string
  type :: string
  updated_at :: string

text \<open>
  The class \<open>User\<close> has two fields: \<open>_data\<close> (protected, assignable) and
  \<open>_client\<close> (protected, readonly). The client is held by reference: \<open>'c\<close> is the
  type of client references.
\<close>

record 'c User =
  data :: UserData
  client :: 'c

text \<open>The constructor (line 33-35) stores both arguments as they are.\<close>

definition User_new :: "UserData \<Rightarrow> 'c \<Rightarrow> 'c User" where
  "User_new d c = \<lparr>data = d, client = c\<rparr>"

text \<open>
  Modelled from the spec: the class \<open>ChannelPlaceholder\<close> (Channel/ChannelPlaceholder.ts
  is not among the sources). Section 3 of the specification: a placeholder "holds only the
  identifier and a reference to the Remote API Client". Its constructor takes the
  identifier and the client, in that order (User.ts, line 90).
\<close>

record 'c ChannelPlaceholder =
  placeholder_id :: string
  placeholder_client :: 'c

definition ChannelPlaceholder_new :: "string \<Rightarrow> 'c \<Rightarrow> 'c ChannelPlaceholder" where
  "ChannelPlaceholder_new i c = \<lparr>placeholder_id = i, placeholder_client = c\<rparr>"

text \<open>
  Modelled from the spec: the error classes \<open>NoSubscriptionProgram\<close>, \<open>NotSubscribed\<close>
  and \<open>NotFollowing\<close> (their files are not among the sources). Section 7 of the
  specification names these three kinds "plus any transport/auth error kinds raised by the
  collaborator"; section 9 asks for a closed tagged variant. Each thrown value carries its
  message; \<open>OtherError\<close> carries the name of its class as well.
\<close>

datatype error =
    NoSubscriptionProgram string
  | NotSubscribed string
  | NotFollowing string
  | OtherError string string

text \<open>The three \<open>instanceof\<close> tests of the catch blocks (lines 124 and 163).\<close>

fun instanceof_NoSubscriptionProgram :: "error \<Rightarrow> bool" where
  "instanceof_NoSubscriptionProgram (NoSubscriptionProgram m) = True"
| "instanceof_NoSubscriptionProgram e = False"

fun instanceof_NotSubscribed :: "error \<Rightarrow> bool" where
  "instanceof_NotSubscribed (NotSubscribed m) = True"
| "instanceof_NotSubscribed e = False"

fun instanceof_NotFollowing :: "error \<Rightarrow> bool" where
  "instanceof_NotFollowing (NotFollowing m) = True"
| "instanceof_NotFollowing e = False"

text \<open>
  The string literal types of the parameters \<open>orderBy\<close> and \<open>orderDirection\<close> of
  \<open>getFollows\<close> (line 140).
\<close>

datatype orderBy = OrderBy_created_at | OrderBy_last_broadcast | OrderBy_login

datatype orderDirection = OrderDirection_asc | OrderDirection_desc

subsection \<open>The collaborators\<close>

text \<open>
  Every call that leaves User.ts, with its receiver and its arguments:
  \<^item> \<open>this._client.channels.getChannel(this)\<close>,
  \<^item> \<open>this._client.users.getSubscriptionData(this, channel)\<close>,
  \<^item> \<open>this._client.users.getFollowedChannels(this, page, limit, orderBy, orderDirection)\<close>,
  \<^item> \<open>this._client.users.getFollowedChannel(this, channel)\<close>,
  \<^item> \<open>this._client.users.getMe()\<close>,
  \<^item> \<open>currentUser.followChannel(this)\<close> and \<open>currentUser.unfollowChannel(this)\<close>,
  \<^item> \<open>placeholder.getStream()\<close>.

  \<open>'r\<close> is the type \<open>UserIdResolvable\<close>, \<open>'n\<close> the type \<open>number\<close> (the facade
  only forwards both), \<open>'v\<close> the values the collaborators resolve with (channel, stream,
  subscription and follow records, the authenticated user, \<open>undefined\<close>). An optional
  parameter that is left out is \<open>None\<close>.
\<close>

datatype ('c, 'r, 'n, 'v) call =
    Channels_getChannel 'c "'c User"
  | Users_getSubscriptionData 'c "'c User" 'r
  | Users_getFollowedChannels 'c "'c User" "'n option" "'n option"
      "orderBy option" "orderDirection option"
  | Users_getFollowedChannel 'c "'c User" 'r
  | Users_getMe 'c
  | PrivilegedUser_followChannel 'v "'c User"
  | PrivilegedUser_unfollowChannel 'v "'c User"
  | ChannelPlaceholder_getStream "'c ChannelPlaceholder"

text \<open>
  The collaborators themselves are a parameter of the model: a function that answers a call
  in a state \<open>'w\<close> of the remote service with a value or a thrown error, and the next
  state of the service.
\<close>

type_synonym ('c, 'r, 'n, 'v, 'w) collaborators =
  "('c, 'r, 'n, 'v) call \<Rightarrow> 'w \<Rightarrow> (error + 'v) \<times> 'w"

subsection \<open>State and control\<close>

text \<open>
  The state a method runs in: the facade object itself (\<open>this\<close>), the calls issued to
  the collaborators so far (oldest first) and the state of the remote service.
\<close>

record ('c, 'r, 'n, 'v, 'w) state =
  self :: "'c User"
  calls :: "('c, 'r, 'n, 'v) call list"
  remote :: 'w

text \<open>
  A method body is a function from the state to its outcome, a returned value (\<open>Inr\<close>)
  or a thrown error (\<open>Inl\<close>; for an async method, the rejection of its promise), and the
  state it leaves.
\<close>

type_synonym ('a, 's) js = "'s \<Rightarrow> (error + 'a) \<times> 's"

definition resolve :: "'a \<Rightarrow> ('a, 's) js" where
  "resolve x = (\<lambda>s. (Inr x, s))"

definition reject :: "error \<Rightarrow> ('a, 's) js" where
  "reject e = (\<lambda>s. (Inl e, s))"

text \<open>\<open>await m f\<close>: run \<open>m\<close>; an error ends the body, a value goes on to \<open>f\<close>.\<close>

definition await :: "('a, 's) js \<Rightarrow> ('a \<Rightarrow> ('b, 's) js) \<Rightarrow> ('b, 's) js" where
  "await m f = (\<lambda>s. case m s of (Inl e, s') \<Rightarrow> (Inl e, s') | (Inr x, s') \<Rightarrow> f x s')"

text \<open>\<open>try_catch m h\<close>: run \<open>m\<close>; an error goes to the handler \<open>h\<close>.\<close>

definition try_catch :: "('a, 's) js \<Rightarrow> (error \<Rightarrow> ('a, 's) js) \<Rightarrow> ('a, 's) js" where
  "try_catch m h = (\<lambda>s. case m s of (Inl e, s') \<Rightarrow> h e s' | (Inr x, s') \<Rightarrow> (Inr x, s'))"

text \<open>Reading \<open>this\<close>.\<close>

definition with_this ::
  "('c User \<Rightarrow> ('a, ('c, 'r, 'n, 'v, 'w) state) js) \<Rightarrow> ('a, ('c, 'r, 'n, 'v, 'w) state) js" where
  "with_this f = (\<lambda>s. f (self s) s)"

text \<open>
  Issuing a call: it is appended to the log, the collaborator answers it and moves the
  remote service on. The collaborator receives its arguments by value and returns nothing
  but its answer.
\<close>

definition invoke ::
  "('c, 'r, 'n, 'v, 'w) collaborators \<Rightarrow> ('c, 'r, 'n, 'v) call \<Rightarrow>
   ('v, ('c, 'r, 'n, 'v, 'w) state) js" where
  "invoke co c = (\<lambda>s. case co c (remote s) of
     (r, w') \<Rightarrow> (r, s\<lparr>calls := calls s @ [c], remote := w'\<rparr>))"

subsection \<open>The methods of User\<close>

text \<open>The getters (lines 38-77).\<close>

definition User_cacheKey :: "(string, ('c, 'r, 'n, 'v, 'w) state) js" where
  "User_cacheKey = with_this (\<lambda>this. resolve (id' (data this)))"

definition User_id :: "(string, ('c, 'r, 'n, 'v, 'w) state) js" where
  "User_id = with_this (\<lambda>this. resolve (id' (data this)))"

definition User_userName :: "(string, ('c, 'r, 'n, 'v, 'w) state) js" where
  "User_userName = with_this (\<lambda>this. resolve (name (data this)))"

definition User_name :: "(string, ('c, 'r, 'n, 'v, 'w) state) js" where
  "User_name = with_this (\<lambda>this. resolve (name (data this)))"

definition User_displayName :: "(string, ('c, 'r, 'n, 'v, 'w) state) js" where
  "User_displayName = with_this (\<lambda>this. resolve (display_name (data this)))"

definition User_logoUrl :: "(string, ('c, 'r, 'n, 'v, 'w) state) js" where
  "User_logoUrl = with_this (\<lambda>this. resolve (logo (data this)))"

text \<open>\<open>getChannel\<close> (lines 82-84).\<close>

definition User_getChannel ::
  "('c, 'r, 'n, 'v, 'w) collaborators \<Rightarrow> ('v, ('c, 'r, 'n, 'v, 'w) state) js" where
  "User_getChannel co =
     with_this (\<lambda>this. invoke co (Channels_getChannel (client this) this))"

text \<open>\<open>getChannelPlaceholder\<close> (lines 89-91).\<close>

definition User_getChannelPlaceholder ::
  "('c ChannelPlaceholder, ('c, 'r, 'n, 'v, 'w) state) js" where
  "User_getChannelPlaceholder =
     with_this (\<lambda>this. resolve (ChannelPlaceholder_new (id' (data this)) (client this)))"

text \<open>\<open>getStream\<close> (lines 96-98).\<close>

definition User_getStream ::
  "('c, 'r, 'n, 'v, 'w) collaborators \<Rightarrow> ('v, ('c, 'r, 'n, 'v, 'w) state) js" where
  "User_getStream co =
     await User_getChannelPlaceholder (\<lambda>p. invoke co (ChannelPlaceholder_getStream p))"

text \<open>\<open>getSubscriptionTo\<close> (lines 110-112).\<close>

definition User_getSubscriptionTo ::
  "('c, 'r, 'n, 'v, 'w) collaborators \<Rightarrow> 'r \<Rightarrow> ('v, ('c, 'r, 'n, 'v, 'w) state) js" where
  "User_getSubscriptionTo co channel =
     with_this (\<lambda>this. invoke co (Users_getSubscriptionData (client this) this channel))"

text \<open>\<open>isSubscribedTo\<close> (lines 119-130).\<close>

definition User_isSubscribedTo ::
  "('c, 'r, 'n, 'v, 'w) collaborators \<Rightarrow> 'r \<Rightarrow> (bool, ('c, 'r, 'n, 'v, 'w) state) js" where
  "User_isSubscribedTo co channel =
     try_catch
       (await (User_getSubscriptionTo co channel) (\<lambda>_. resolve True))
       (\<lambda>e. if instanceof_NoSubscriptionProgram e \<or> instanceof_NotSubscribed e
             then resolve False
             else reject e)"

text \<open>\<open>getFollows\<close> (lines 140-142).\<close>

definition User_getFollows ::
  "('c, 'r, 'n, 'v, 'w) collaborators \<Rightarrow> 'n option \<Rightarrow> 'n option \<Rightarrow> orderBy option \<Rightarrow>
   orderDirection option \<Rightarrow> ('v, ('c, 'r, 'n, 'v, 'w) state) js" where
  "User_getFollows co page limit orderBy orderDirection =
     with_this (\<lambda>this. invoke co
       (Users_getFollowedChannels (client this) this page limit orderBy orderDirection))"

text \<open>\<open>getFollowTo\<close> (lines 149-151).\<close>

definition User_getFollowTo ::
  "('c, 'r, 'n, 'v, 'w) collaborators \<Rightarrow> 'r \<Rightarrow> ('v, ('c, 'r, 'n, 'v, 'w) state) js" where
  "User_getFollowTo co channel =
     with_this (\<lambda>this. invoke co (Users_getFollowedChannel (client this) this channel))"

text \<open>\<open>follows\<close> (lines 158-169).\<close>

definition User_follows ::
  "('c, 'r, 'n, 'v, 'w) collaborators \<Rightarrow> 'r \<Rightarrow> (bool, ('c, 'r, 'n, 'v, 'w) state) js" where
  "User_follows co channel =
     try_catch
       (await (User_getFollowTo co channel) (\<lambda>_. resolve True))
       (\<lambda>e. if instanceof_NotFollowing e then resolve False else reject e)"

text \<open>\<open>follow\<close> (lines 174-177) and \<open>unfollow\<close> (lines 182-185).\<close>

definition User_follow ::
  "('c, 'r, 'n, 'v, 'w) collaborators \<Rightarrow> ('v, ('c, 'r, 'n, 'v, 'w) state) js" where
  "User_follow co =
     await (with_this (\<lambda>this. invoke co (Users_getMe (client this))))
       (\<lambda>currentUser. with_this (\<lambda>this.
          invoke co (PrivilegedUser_followChannel currentUser this)))"

definition User_unfollow ::
  "('c, 'r, 'n, 'v, 'w) collaborators \<Rightarrow> ('v, ('c, 'r, 'n, 'v, 'w) state) js" where
  "User_unfollow co =
     await (with_this (\<lambda>this. invoke co (Users_getMe (client this))))
       (\<lambda>currentUser. with_this (\<lambda>this.
          invoke co (PrivilegedUser_unfollowChannel currentUser this)))"

subsection \<open>A caller\<close>

text \<open>
  A caller holds the facade and calls its methods one after the other. \<open>member\<close> lists
  the getters and methods of the class with their arguments, \<open>result\<close> what they return.
\<close>

datatype ('r, 'n) member =
    Get_cacheKey
  | Get_id
  | Get_userName
  | Get_name
  | Get_displayName
  | Get_logoUrl
  | GetChannel
  | GetChannelPlaceholder
  | GetStream
  | GetSubscriptionTo 'r
  | IsSubscribedTo 'r
  | GetFollows "'n option" "'n option" "orderBy option" "orderDirection option"
  | GetFollowTo 'r
  | Follows 'r
  | Follow
  | Unfollow

datatype ('c, 'v) result =
    Text string
  | Flag bool
  | Placeholder "'c ChannelPlaceholder"
  | Record 'v

definition returning :: "('a \<Rightarrow> 'b) \<Rightarrow> ('a, 's) js \<Rightarrow> ('b, 's) js" where
  "returning f m = await m (\<lambda>x. resolve (f x))"

fun call_method ::
  "('c, 'r, 'n, 'v, 'w) collaborators \<Rightarrow> ('r, 'n) member \<Rightarrow>
   (('c, 'v) result, ('c, 'r, 'n, 'v, 'w) state) js" where
  "call_method co Get_cacheKey = returning Text User_cacheKey"
| "call_method co Get_id = returning Text User_id"
| "call_method co Get_userName = returning Text User_userName"
| "call_method co Get_name = returning Text User_name"
| "call_method co Get_displayName = returning Text User_displayName"
| "call_method co Get_logoUrl = returning Text User_logoUrl"
| "call_method co GetChannel = returning Record (User_getChannel co)"
| "call_method co GetChannelPlaceholder = returning Placeholder User_getChannelPlaceholder"
| "call_method co GetStream = returning Record (User_getStream co)"
| "call_method co (GetSubscriptionTo channel) =
     returning Record (User_getSubscriptionTo co channel)"
| "call_method co (IsSubscribedTo channel) = returning Flag (User_isSubscribedTo co channel)"
| "call_method co (GetFollows page limit orderBy orderDirection) =
     returning Record (User_getFollows co page limit orderBy orderDirection)"
| "call_method co (GetFollowTo channel) = returning Record (User_getFollowTo co channel)"
| "call_method co (Follows channel) = returning Flag (User_follows co channel)"
| "call_method co Follow = returning Record (User_follow co)"
| "call_method co Unfollow = returning Record (User_unfollow co)"

text \<open>
  The caller handles each outcome, value or error, and goes on with the next call; the
  outcomes are collected in the order of the calls.
\<close>

fun call_methods ::
  "('c, 'r, 'n, 'v, 'w) collaborators \<Rightarrow> ('r, 'n) member list \<Rightarrow> ('c, 'r, 'n, 'v, 'w) state \<Rightarrow>
   (error + ('c, 'v) result) list \<times> ('c, 'r, 'n, 'v, 'w) state" where
  "call_methods co [] s = ([], s)"
| "call_methods co (m # ms) s =
     (case call_method co m s of
        (r, s') \<Rightarrow> (case call_methods co ms s' of (rs, s'') \<Rightarrow> (r # rs, s'')))"

subsection \<open>A concrete service\<close>

text \<open>
  A small remote service to run the methods against: client references and numbers are
  natural numbers, channels are named by strings, the service resolves with strings, and
  its state counts the requests it has answered. Client 7 is authenticated as the user
  with identifier 1; any other client is not.
\<close>

definition sample_data :: UserData where
  "sample_data = \<lparr>id' = ''44322889'', bio = ''hello'', created_at = ''2013-06-03T19:12:02Z'',
     name = ''sassy'', display_name = ''Sassy'', logo = ''https://cdn/logo.png'',
     type = ''user'', updated_at = ''2016-12-14T01:01:44Z''\<rparr>"

definition sample_state :: "nat \<Rightarrow> (nat, string, nat, string, nat) state" where
  "sample_state c = \<lparr>self = User_new sample_data c, calls = [], remote = 0\<rparr>"

fun sample_answer :: "string \<Rightarrow> error + string" where
  "sample_answer channel =
     (if channel = ''channelX'' then Inl (NotSubscribed ''not subscribed'')
      else if channel = ''channelP'' then Inl (NoSubscriptionProgram ''no program'')
      else if channel = ''channelF'' then Inl (NotFollowing ''not following'')
      else if channel = ''channelT'' then Inl (OtherError ''HTTPError'' ''timeout'')
      else Inr channel)"

fun sample_service :: "(nat, string, nat, string, nat) collaborators" where
  "sample_service (Channels_getChannel c u) w = (Inr (id' (data u)), Suc w)"
| "sample_service (Users_getSubscriptionData c u channel) w = (sample_answer channel, Suc w)"
| "sample_service (Users_getFollowedChannels c u page limit orderBy orderDirection) w =
     (if limit = Some 0 then Inl (OtherError ''HTTPError'' ''bad request'')
      else Inr ''follows'', Suc w)"
| "sample_service (Users_getFollowedChannel c u channel) w = (sample_answer channel, Suc w)"
| "sample_service (Users_getMe c) w =
     (if c = 7 then Inr ''1'' else Inl (OtherError ''HTTPError'' ''unauthorized''), Suc w)"
| "sample_service (PrivilegedUser_followChannel me u) w = (Inr ''followed'', Suc w)"
| "sample_service (PrivilegedUser_unfollowChannel me u) w =
     (if id' (data u) = ''44322889'' then Inl (OtherError ''HTTPError'' ''not found'')
      else Inr ''undefined'', Suc w)"
| "sample_service (ChannelPlaceholder_getStream p) w =
     (if placeholder_id p = ''44322889'' then Inr ''stream'' else Inr ''null'', Suc w)"

section \<open>Properties\<close>

subsection \<open>Control operators and the facade object\<close>

lemmas js_defs = resolve_def reject_def await_def try_catch_def with_this_def invoke_def

lemma User_new_fields [simp]:
  "data (User_new d c) = d"
  "client (User_new d c) = c"
  by (simp_all add: User_new_def)

lemma ChannelPlaceholder_new_fields [simp]:
  "placeholder_id (ChannelPlaceholder_new i c) = i"
  "placeholder_client (ChannelPlaceholder_new i c) = c"
  by (simp_all add: ChannelPlaceholder_new_def)

lemma invoke_answer:
  "co c (remote s) = (r, w') \<Longrightarrow> invoke co c s = (r, s\<lparr>calls := calls s @ [c], remote := w'\<rparr>)"
  by (simp add: invoke_def)

lemma invoke_self: "self (snd (invoke co c s)) = self s"
  by (cases "co c (remote s)") (simp add: invoke_def)

lemma resolve_self: "self (snd (resolve x s)) = self s"
  by (simp add: resolve_def)

lemma reject_self: "self (snd (reject e s)) = self s"
  by (simp add: reject_def)

lemma with_this_self:
  assumes "\<And>this s. self (snd (f this s)) = self s"
  shows "self (snd (with_this f s)) = self s"
  using assms by (simp add: with_this_def)

lemma await_self:
  assumes m: "\<And>s. self (snd (m s)) = self s"
    and f: "\<And>x s. self (snd (f x s)) = self s"
  shows "self (snd (await m f s)) = self s"
proof (cases "m s")
  case (Pair r s')
  from m [of s] Pair have same: "self s' = self s"
    by simp
  show ?thesis
  proof (cases r)
    case (Inl e)
    with Pair same show ?thesis by (simp add: await_def)
  next
    case (Inr x)
    with Pair same f [of x s'] show ?thesis by (simp add: await_def)
  qed
qed

lemma try_catch_self:
  assumes m: "\<And>s. self (snd (m s)) = self s"
    and h: "\<And>e s. self (snd (h e s)) = self s"
  shows "self (snd (try_catch m h s)) = self s"
proof (cases "m s")
  case (Pair r s')
  from m [of s] Pair have same: "self s' = self s"
    by simp
  show ?thesis
  proof (cases r)
    case (Inl e)
    with Pair same h [of e s'] show ?thesis by (simp add: try_catch_def)
  next
    case (Inr x)
    with Pair same show ?thesis by (simp add: try_catch_def)
  qed
qed

lemma returning_self:
  assumes "\<And>s. self (snd (m s)) = self s"
  shows "self (snd (returning f m s)) = self s"
  unfolding returning_def by (rule await_self) (simp_all add: assms resolve_self)

lemmas keeps_self = invoke_self resolve_self reject_self with_this_self await_self
  try_catch_self returning_self

lemma getter_self:
  "self (snd (User_cacheKey s)) = self s"
  "self (snd (User_id s)) = self s"
  "self (snd (User_userName s)) = self s"
  "self (snd (User_name s)) = self s"
  "self (snd (User_displayName s)) = self s"
  "self (snd (User_logoUrl s)) = self s"
  "self (snd (User_getChannelPlaceholder s)) = self s"
  by (simp_all add: User_cacheKey_def User_id_def User_userName_def User_name_def
      User_displayName_def User_logoUrl_def User_getChannelPlaceholder_def
      with_this_def resolve_def)

lemma getChannel_self: "self (snd (User_getChannel co s)) = self s"
  unfolding User_getChannel_def by (intro keeps_self)

lemma getStream_self: "self (snd (User_getStream co s)) = self s"
  unfolding User_getStream_def by (intro keeps_self getter_self)

lemma getSubscriptionTo_self: "self (snd (User_getSubscriptionTo co channel s)) = self s"
  unfolding User_getSubscriptionTo_def by (intro keeps_self)

lemma isSubscribedTo_self: "self (snd (User_isSubscribedTo co channel s)) = self s"
  unfolding User_isSubscribedTo_def
  by (intro try_catch_self await_self getSubscriptionTo_self resolve_self)
     (simp add: resolve_self reject_self)

lemma getFollows_self:
  "self (snd (User_getFollows co page limit orderBy orderDirection s)) = self s"
  unfolding User_getFollows_def by (intro keeps_self)

lemma getFollowTo_self: "self (snd (User_getFollowTo co channel s)) = self s"
  unfolding User_getFollowTo_def by (intro keeps_self)

lemma follows_self: "self (snd (User_follows co channel s)) = self s"
  unfolding User_follows_def
  by (intro try_catch_self await_self getFollowTo_self resolve_self)
     (simp add: resolve_self reject_self)

lemma follow_self: "self (snd (User_follow co s)) = self s"
  unfolding User_follow_def by (intro keeps_self)

lemma unfollow_self: "self (snd (User_unfollow co s)) = self s"
  unfolding User_unfollow_def by (intro keeps_self)

lemma call_method_self: "self (snd (call_method co m s)) = self s"
  by (cases m)
     (simp_all add: returning_self getter_self getChannel_self getStream_self
        getSubscriptionTo_self isSubscribedTo_self getFollows_self getFollowTo_self
        follows_self follow_self unfollow_self)

lemma call_methods_self: "self (snd (call_methods co ms s)) = self s"
proof (induction ms arbitrary: s)
  case Nil
  show ?case by simp
next
  case (Cons m ms)
  obtain r s' where step: "call_method co m s = (r, s')"
    by (cases "call_method co m s")
  obtain rs s'' where rest: "call_methods co ms s' = (rs, s'')"
    by (cases "call_methods co ms s'")
  from call_method_self [of co m s] step have "self s' = self s"
    by simp
  moreover from Cons.IH [of s'] rest have "self s'' = self s'"
    by simp
  ultimately show ?case
    using step rest by simp
qed

lemma getter_value:
  "User_cacheKey s = (Inr (id' (data (self s))), s)"
  "User_id s = (Inr (id' (data (self s))), s)"
  "User_userName s = (Inr (name (data (self s))), s)"
  "User_name s = (Inr (name (data (self s))), s)"
  "User_displayName s = (Inr (display_name (data (self s))), s)"
  "User_logoUrl s = (Inr (logo (data (self s))), s)"
  by (simp_all add: User_cacheKey_def User_id_def User_userName_def User_name_def
      User_displayName_def User_logoUrl_def with_this_def resolve_def)

lemma sample_subscription_answer:
  "sample_service
     (Users_getSubscriptionData (client (self (sample_state 7))) (self (sample_state 7)) channel)
     (remote (sample_state 7)) = (sample_answer channel, 1)"
  by (simp add: sample_state_def)

lemma sample_follow_answer:
  "sample_service
     (Users_getFollowedChannel (client (self (sample_state 7))) (self (sample_state 7)) channel)
     (remote (sample_state 7)) = (sample_answer channel, 1)"
  by (simp add: sample_state_def)

subsection \<open>Error classification\<close>

text \<open>
  Claim C1. For every channel argument, \<open>isSubscribedTo channel\<close> issues the one call
  \<open>getSubscriptionData(this, channel)\<close> to the client. When that call succeeds (with any
  value) the method returns \<open>true\<close>; when it fails with \<open>NoSubscriptionProgram\<close> or
  with \<open>NotSubscribed\<close> the method returns \<open>false\<close>; when it fails with any other
  error (\<open>NotFollowing\<close>, a transport error) the method throws that same error.
\<close>

theorem isSubscribedTo_classifies_errors:
  assumes "co (Users_getSubscriptionData (client (self s)) (self s) channel) (remote s) = (r, w')"
  shows "(\<forall>v. r = Inr v \<longrightarrow> fst (User_isSubscribedTo co channel s) = Inr True)
    \<and> (\<forall>m. r = Inl (NoSubscriptionProgram m) \<longrightarrow>
          fst (User_isSubscribedTo co channel s) = Inr False)
    \<and> (\<forall>m. r = Inl (NotSubscribed m) \<longrightarrow>
          fst (User_isSubscribedTo co channel s) = Inr False)
    \<and> (\<forall>m. r = Inl (NotFollowing m) \<longrightarrow>
          fst (User_isSubscribedTo co channel s) = Inl (NotFollowing m))
    \<and> (\<forall>k m. r = Inl (OtherError k m) \<longrightarrow>
          fst (User_isSubscribedTo co channel s) = Inl (OtherError k m))
    \<and> snd (User_isSubscribedTo co channel s) =
        s\<lparr>calls := calls s @ [Users_getSubscriptionData (client (self s)) (self s) channel],
          remote := w'\<rparr>"
proof (cases r)
  case (Inl e)
  with assms show ?thesis
    by (cases e) (simp_all add: User_isSubscribedTo_def User_getSubscriptionTo_def js_defs)
next
  case (Inr v)
  with assms show ?thesis
    by (simp add: User_isSubscribedTo_def User_getSubscriptionTo_def js_defs)
qed

theorem isSubscribedTo_classifies_errors_witness:
  "fst (User_isSubscribedTo sample_service ''channelY'' (sample_state 7)) = Inr True
   \<and> fst (User_isSubscribedTo sample_service ''channelP'' (sample_state 7)) = Inr False
   \<and> fst (User_isSubscribedTo sample_service ''channelX'' (sample_state 7)) = Inr False
   \<and> fst (User_isSubscribedTo sample_service ''channelF'' (sample_state 7)) =
       Inl (NotFollowing ''not following'')
   \<and> fst (User_isSubscribedTo sample_service ''channelT'' (sample_state 7)) =
       Inl (OtherError ''HTTPError'' ''timeout'')
   \<and> calls (snd (User_isSubscribedTo sample_service ''channelT'' (sample_state 7))) =
       [Users_getSubscriptionData 7 (User_new sample_data 7) ''channelT'']"
proof -
  note run = isSubscribedTo_classifies_errors
    [where co = sample_service and s = "sample_state 7", OF sample_subscription_answer]
  from run [of "''channelY''"] run [of "''channelP''"] run [of "''channelX''"]
    run [of "''channelF''"] run [of "''channelT''"]
  show ?thesis
    by (simp add: sample_state_def)
qed

text \<open>
  Claim C2. For every channel argument, \<open>follows channel\<close> issues the one call
  \<open>getFollowedChannel(this, channel)\<close> to the client. It returns \<open>false\<close> exactly when
  that call fails with \<open>NotFollowing\<close>, returns \<open>true\<close> when the call succeeds, and
  throws any other error as it is.
\<close>

theorem follows_classifies_errors:
  assumes "co (Users_getFollowedChannel (client (self s)) (self s) channel) (remote s) = (r, w')"
  shows "(fst (User_follows co channel s) = Inr False) = (\<exists>m. r = Inl (NotFollowing m))
    \<and> (\<forall>v. r = Inr v \<longrightarrow> fst (User_follows co channel s) = Inr True)
    \<and> (\<forall>m. r = Inl (NoSubscriptionProgram m) \<longrightarrow>
          fst (User_follows co channel s) = Inl (NoSubscriptionProgram m))
    \<and> (\<forall>m. r = Inl (NotSubscribed m) \<longrightarrow>
          fst (User_follows co channel s) = Inl (NotSubscribed m))
    \<and> (\<forall>k m. r = Inl (OtherError k m) \<longrightarrow>
          fst (User_follows co channel s) = Inl (OtherError k m))
    \<and> snd (User_follows co channel s) =
        s\<lparr>calls := calls s @ [Users_getFollowedChannel (client (self s)) (self s) channel],
          remote := w'\<rparr>"
proof (cases r)
  case (Inl e)
  with assms show ?thesis
    by (cases e) (simp_all add: User_follows_def User_getFollowTo_def js_defs)
next
  case (Inr v)
  with assms show ?thesis
    by (simp add: User_follows_def User_getFollowTo_def js_defs)
qed

theorem follows_classifies_errors_witness:
  "fst (User_follows sample_service ''channelY'' (sample_state 7)) = Inr True
   \<and> fst (User_follows sample_service ''channelF'' (sample_state 7)) = Inr False
   \<and> fst (User_follows sample_service ''channelP'' (sample_state 7)) =
       Inl (NoSubscriptionProgram ''no program'')
   \<and> fst (User_follows sample_service ''channelX'' (sample_state 7)) =
       Inl (NotSubscribed ''not subscribed'')
   \<and> fst (User_follows sample_service ''channelT'' (sample_state 7)) =
       Inl (OtherError ''HTTPError'' ''timeout'')
   \<and> calls (snd (User_follows sample_service ''channelF'' (sample_state 7))) =
       [Users_getFollowedChannel 7 (User_new sample_data 7) ''channelF'']"
proof -
  note run = follows_classifies_errors
    [where co = sample_service and s = "sample_state 7", OF sample_follow_answer]
  from run [of "''channelY''"] run [of "''channelF''"] run [of "''channelP''"]
    run [of "''channelX''"] run [of "''channelT''"]
  show ?thesis
    by (simp add: sample_state_def)
qed

subsection \<open>Accessors\<close>

text \<open>
  Claim C3. For every backing record \<open>d\<close> (and client \<open>c\<close>) the accessors \<open>id\<close>,
  \<open>name\<close>, \<open>displayName\<close> and \<open>logoUrl\<close> of the facade built from it return the
  fields \<open>_id\<close>, \<open>name\<close>, \<open>display_name\<close> and \<open>logo\<close> of \<open>d\<close> as they are
  stored; none can throw, and none changes the state (no call is issued, the object and the
  remote service are as before).
\<close>

theorem accessors_project_record:
  "User_id (s\<lparr>self := User_new d c\<rparr>) = (Inr (id' d), s\<lparr>self := User_new d c\<rparr>)
   \<and> User_name (s\<lparr>self := User_new d c\<rparr>) = (Inr (name d), s\<lparr>self := User_new d c\<rparr>)
   \<and> User_displayName (s\<lparr>self := User_new d c\<rparr>) =
       (Inr (display_name d), s\<lparr>self := User_new d c\<rparr>)
   \<and> User_logoUrl (s\<lparr>self := User_new d c\<rparr>) = (Inr (logo d), s\<lparr>self := User_new d c\<rparr>)"
  by (simp add: getter_value User_new_def)

text \<open>
  Claim C4. After any sequence \<open>ms\<close> of calls of getters and methods of the facade,
  against any collaborators and from any state, the facade object is the one before the
  calls: its backing record and in particular its identifier are unchanged, and each
  accessor returns the value it returned before.
\<close>

theorem facade_never_mutates_record:
  "self (snd (call_methods co ms s)) = self s
   \<and> data (self (snd (call_methods co ms s))) = data (self s)
   \<and> id' (data (self (snd (call_methods co ms s)))) = id' (data (self s))
   \<and> fst (User_cacheKey (snd (call_methods co ms s))) = fst (User_cacheKey s)
   \<and> fst (User_id (snd (call_methods co ms s))) = fst (User_id s)
   \<and> fst (User_userName (snd (call_methods co ms s))) = fst (User_userName s)
   \<and> fst (User_name (snd (call_methods co ms s))) = fst (User_name s)
   \<and> fst (User_displayName (snd (call_methods co ms s))) = fst (User_displayName s)
   \<and> fst (User_logoUrl (snd (call_methods co ms s))) = fst (User_logoUrl s)"
  by (simp add: call_methods_self getter_value)

theorem facade_never_mutates_record_witness:
  "self (snd (call_methods sample_service
      [Get_id, Follow, IsSubscribedTo ''channelX'', Unfollow, GetStream, Get_id]
      (sample_state 7))) = User_new sample_data 7
   \<and> fst (User_id (snd (call_methods sample_service
      [Get_id, Follow, IsSubscribedTo ''channelX'', Unfollow, GetStream, Get_id]
      (sample_state 7)))) = Inr ''44322889''"
  using facade_never_mutates_record [of sample_service
      "[Get_id, Follow, IsSubscribedTo ''channelX'', Unfollow, GetStream, Get_id]"
      "sample_state 7"]
  by (simp add: sample_state_def getter_value User_new_def sample_data_def)

subsection \<open>Delegation\<close>

text \<open>
  Claim C5. For every facade instance \<open>getChannelPlaceholder\<close> succeeds, leaves the
  state as it is (the log of calls to the collaborators gets no entry and the remote
  service does not move), and returns a placeholder whose identifier is the identifier of
  the facade (what \<open>id\<close> returns) and whose client is the client the facade holds.
\<close>

theorem getChannelPlaceholder_is_local:
  "\<exists>p. User_getChannelPlaceholder s = (Inr p, s)
     \<and> calls (snd (User_getChannelPlaceholder s)) = calls s
     \<and> remote (snd (User_getChannelPlaceholder s)) = remote s
     \<and> User_id s = (Inr (placeholder_id p), s)
     \<and> placeholder_id p = id' (data (self s))
     \<and> placeholder_client p = client (self s)"
  by (simp add: User_getChannelPlaceholder_def ChannelPlaceholder_new_def getter_value
      with_this_def resolve_def)

text \<open>
  Claim C6. \<open>getStream\<close> issues exactly one call: \<open>getStream\<close> on a placeholder
  constructed from the identifier and the client of this facade. Whatever that call gives,
  a stream record, a "no stream" value or an error, is the outcome of \<open>getStream\<close>,
  unchanged.
\<close>

theorem getStream_delegates_to_placeholder:
  assumes "co (ChannelPlaceholder_getStream
             (ChannelPlaceholder_new (id' (data (self s))) (client (self s)))) (remote s) = (r, w')"
  shows "User_getStream co s =
     (r, s\<lparr>calls := calls s @ [ChannelPlaceholder_getStream
              (ChannelPlaceholder_new (id' (data (self s))) (client (self s)))],
          remote := w'\<rparr>)"
  using assms by (simp add: User_getStream_def User_getChannelPlaceholder_def js_defs)

theorem getStream_delegates_to_placeholder_witness:
  "User_getStream sample_service (sample_state 7) =
     (Inr ''stream'', \<lparr>self = User_new sample_data 7,
        calls = [ChannelPlaceholder_getStream
          \<lparr>placeholder_id = ''44322889'', placeholder_client = 7\<rparr>],
        remote = 1\<rparr>)"
proof -
  have answer: "sample_service (ChannelPlaceholder_getStream
      (ChannelPlaceholder_new (id' (data (self (sample_state 7))))
        (client (self (sample_state 7))))) (remote (sample_state 7)) = (Inr ''stream'', 1)"
    by (simp add: sample_state_def sample_data_def User_new_def ChannelPlaceholder_new_def)
  from getStream_delegates_to_placeholder
    [where co = sample_service and s = "sample_state 7", OF answer] show ?thesis
    by (simp add: sample_state_def sample_data_def User_new_def ChannelPlaceholder_new_def)
qed

text \<open>
  Claim C7. \<open>follow\<close> and \<open>unfollow\<close> first issue \<open>getMe\<close> on the client. When
  that fails, the error is the outcome and \<open>getMe\<close> is the only call issued: no follow
  or unfollow operation is invoked. When it resolves with the authenticated user \<open>me\<close>,
  the second and last call is \<open>followChannel\<close> (for \<open>unfollow\<close>:
  \<open>unfollowChannel\<close>) on \<open>me\<close> with this facade as the target, and its outcome is the
  outcome of the method.
\<close>

theorem follow_and_unfollow_resolve_authenticated_user_first:
  "(\<forall>e w1. co (Users_getMe (client (self s))) (remote s) = (Inl e, w1) \<longrightarrow>
      User_follow co s =
        (Inl e, s\<lparr>calls := calls s @ [Users_getMe (client (self s))], remote := w1\<rparr>)
      \<and> User_unfollow co s =
        (Inl e, s\<lparr>calls := calls s @ [Users_getMe (client (self s))], remote := w1\<rparr>))
   \<and> (\<forall>me w1 r w2. co (Users_getMe (client (self s))) (remote s) = (Inr me, w1) \<longrightarrow>
      (co (PrivilegedUser_followChannel me (self s)) w1 = (r, w2) \<longrightarrow>
         User_follow co s =
           (r, s\<lparr>calls := calls s @ [Users_getMe (client (self s)),
                    PrivilegedUser_followChannel me (self s)], remote := w2\<rparr>))
      \<and> (co (PrivilegedUser_unfollowChannel me (self s)) w1 = (r, w2) \<longrightarrow>
         User_unfollow co s =
           (r, s\<lparr>calls := calls s @ [Users_getMe (client (self s)),
                    PrivilegedUser_unfollowChannel me (self s)], remote := w2\<rparr>)))"
  by (simp add: User_follow_def User_unfollow_def js_defs)

theorem follow_and_unfollow_resolve_authenticated_user_first_witness:
  "User_follow sample_service (sample_state 3) =
     (Inl (OtherError ''HTTPError'' ''unauthorized''),
      \<lparr>self = User_new sample_data 3, calls = [Users_getMe 3], remote = 1\<rparr>)
   \<and> User_unfollow sample_service (sample_state 3) =
     (Inl (OtherError ''HTTPError'' ''unauthorized''),
      \<lparr>self = User_new sample_data 3, calls = [Users_getMe 3], remote = 1\<rparr>)
   \<and> User_follow sample_service (sample_state 7) =
     (Inr ''followed'',
      \<lparr>self = User_new sample_data 7,
       calls = [Users_getMe 7, PrivilegedUser_followChannel ''1'' (User_new sample_data 7)],
       remote = 2\<rparr>)
   \<and> User_unfollow sample_service (sample_state 7) =
     (Inl (OtherError ''HTTPError'' ''not found''),
      \<lparr>self = User_new sample_data 7,
       calls = [Users_getMe 7, PrivilegedUser_unfollowChannel ''1'' (User_new sample_data 7)],
       remote = 2\<rparr>)"
proof -
  have refused: "sample_service (Users_getMe (client (self (sample_state 3))))
      (remote (sample_state 3)) = (Inl (OtherError ''HTTPError'' ''unauthorized''), 1)"
    by (simp add: sample_state_def)
  have me: "sample_service (Users_getMe (client (self (sample_state 7))))
      (remote (sample_state 7)) = (Inr ''1'', 1)"
    by (simp add: sample_state_def)
  have followed: "sample_service
      (PrivilegedUser_followChannel ''1'' (self (sample_state 7))) 1 = (Inr ''followed'', 2)"
    by simp
  have unfollowed: "sample_service
      (PrivilegedUser_unfollowChannel ''1'' (self (sample_state 7))) 1 =
      (Inl (OtherError ''HTTPError'' ''not found''), 2)"
    by (simp add: sample_state_def sample_data_def)
  note run3 = follow_and_unfollow_resolve_authenticated_user_first
    [where co = sample_service and s = "sample_state 3"]
  note run7 = follow_and_unfollow_resolve_authenticated_user_first
    [where co = sample_service and s = "sample_state 7"]
  from run3 refused have
    "User_follow sample_service (sample_state 3) =
       (Inl (OtherError ''HTTPError'' ''unauthorized''),
        (sample_state 3)\<lparr>calls := calls (sample_state 3) @
           [Users_getMe (client (self (sample_state 3)))], remote := 1\<rparr>)
     \<and> User_unfollow sample_service (sample_state 3) =
       (Inl (OtherError ''HTTPError'' ''unauthorized''),
        (sample_state 3)\<lparr>calls := calls (sample_state 3) @
           [Users_getMe (client (self (sample_state 3)))], remote := 1\<rparr>)"
    by blast
  moreover from run7 me followed have
    "User_follow sample_service (sample_state 7) =
       (Inr ''followed'',
        (sample_state 7)\<lparr>calls := calls (sample_state 7) @
           [Users_getMe (client (self (sample_state 7))),
            PrivilegedUser_followChannel ''1'' (self (sample_state 7))], remote := 2\<rparr>)"
    by blast
  moreover from run7 me unfollowed have
    "User_unfollow sample_service (sample_state 7) =
       (Inl (OtherError ''HTTPError'' ''not found''),
        (sample_state 7)\<lparr>calls := calls (sample_state 7) @
           [Users_getMe (client (self (sample_state 7))),
            PrivilegedUser_unfollowChannel ''1'' (self (sample_state 7))], remote := 2\<rparr>)"
    by blast
  ultimately show ?thesis
    by (simp add: sample_state_def)
qed

text \<open>
  Claim C8. For all arguments, \<open>getFollows page limit orderBy orderDirection\<close> issues the
  one call \<open>getFollowedChannels\<close> on the client, with this facade and the four optional
  parameters as they were given (a parameter left out stays left out, for the collaborator
  to fill in), and its outcome is the outcome of that call. \<open>orderBy\<close> is one of creation
  time, last broadcast time and login name, \<open>orderDirection\<close> one of ascending and
  descending.
\<close>

theorem getFollows_forwards_arguments:
  assumes "co (Users_getFollowedChannels (client (self s)) (self s)
             page limit orderBy orderDirection) (remote s) = (r, w')"
  shows "User_getFollows co page limit orderBy orderDirection s =
     (r, s\<lparr>calls := calls s @ [Users_getFollowedChannels (client (self s)) (self s)
              page limit orderBy orderDirection], remote := w'\<rparr>)
   \<and> orderBy \<in> {None, Some OrderBy_created_at, Some OrderBy_last_broadcast,
        Some OrderBy_login}
   \<and> orderDirection \<in> {None, Some OrderDirection_asc, Some OrderDirection_desc}"
proof -
  have "orderBy \<in> {None, Some OrderBy_created_at, Some OrderBy_last_broadcast,
      Some OrderBy_login}"
  proof (cases orderBy)
    case None
    then show ?thesis by simp
  next
    case (Some b)
    then show ?thesis by (cases b) simp_all
  qed
  moreover have "orderDirection \<in> {None, Some OrderDirection_asc, Some OrderDirection_desc}"
  proof (cases orderDirection)
    case None
    then show ?thesis by simp
  next
    case (Some d)
    then show ?thesis by (cases d) simp_all
  qed
  moreover from assms have "User_getFollows co page limit orderBy orderDirection s =
     (r, s\<lparr>calls := calls s @ [Users_getFollowedChannels (client (self s)) (self s)
              page limit orderBy orderDirection], remote := w'\<rparr>)"
    by (simp add: User_getFollows_def with_this_def invoke_def)
  ultimately show ?thesis
    by simp
qed

theorem getFollows_forwards_arguments_witness:
  "User_getFollows sample_service (Some 2) (Some 25) (Some OrderBy_login)
      (Some OrderDirection_desc) (sample_state 7) =
     (Inr ''follows'',
      \<lparr>self = User_new sample_data 7,
       calls = [Users_getFollowedChannels 7 (User_new sample_data 7) (Some 2) (Some 25)
          (Some OrderBy_login) (Some OrderDirection_desc)],
       remote = 1\<rparr>)
   \<and> User_getFollows sample_service None None None None (sample_state 7) =
     (Inr ''follows'',
      \<lparr>self = User_new sample_data 7,
       calls = [Users_getFollowedChannels 7 (User_new sample_data 7) None None None None],
       remote = 1\<rparr>)
   \<and> User_getFollows sample_service None (Some 0) None None (sample_state 7) =
     (Inl (OtherError ''HTTPError'' ''bad request''),
      \<lparr>self = User_new sample_data 7,
       calls = [Users_getFollowedChannels 7 (User_new sample_data 7) None (Some 0) None None],
       remote = 1\<rparr>)"
proof -
  have answer: "sample_service (Users_getFollowedChannels (client (self (sample_state 7)))
      (self (sample_state 7)) page limit orderBy orderDirection) (remote (sample_state 7)) =
      (if limit = Some 0 then Inl (OtherError ''HTTPError'' ''bad request'')
       else Inr ''follows'', 1)" for page limit orderBy orderDirection
    by (simp add: sample_state_def)
  note run = getFollows_forwards_arguments
    [where co = sample_service and s = "sample_state 7", OF answer]
  from run [of "Some 2" "Some 25" "Some OrderBy_login" "Some OrderDirection_desc"]
    run [of None None None None] run [of None "Some 0" None None]
  show ?thesis
    by (simp add: sample_state_def)
qed

subsection \<open>Accessors that agree\<close>

text \<open>
  Claim C9. For every facade instance the accessors \<open>cacheKey\<close> and \<open>id\<close> behave the
  same: both return the stored identifier field of the backing record.
\<close>

theorem cacheKey_is_id:
  "User_cacheKey s = User_id s \<and> User_id s = (Inr (id' (data (self s))), s)"
  by (simp add: getter_value)

text \<open>
  Claim C10. For every facade instance the deprecated accessor \<open>userName\<close> behaves the
  same as \<open>name\<close>: both return the login-name field of the backing record.
\<close>

theorem userName_is_name:
  "User_userName s = User_name s \<and> User_name s = (Inr (name (data (self s))), s)"
  by (simp add: getter_value)

end
